theory Spec2Isabelle
  imports Complex_Main "HOL-Library.Sublist"
begin

section \<open>The settings tab registry\<close>

text \<open>
  The settings view of the webview (the second document of
  \<^verbatim>\<open>webview-ui/src/components/welcome/WelcomeView.tsx\<close>) keeps a static, ordered
  list of tabs. Each tab is an object of the interface \<^verbatim>\<open>SettingsTab\<close>. The optional
  field \<^verbatim>\<open>hidden?: boolean\<close> is absent (\<open>None\<close>) on every tab but the debug tab.
\<close>

datatype LucideIcon =
  SlidersHorizontal | CheckCheck | SquareMousePointer | SquareTerminal
  | FlaskConical | Wrench | Info

record SettingsTab =
  id' :: string
  name :: string
  tooltipText :: string
  headerText :: string
  icon :: LucideIcon
  hidden :: "bool option"

text \<open>
  JavaScript truthiness of a value of type \<^verbatim>\<open>string | undefined\<close>: \<^verbatim>\<open>undefined\<close> and
  the empty string are falsy, every other string is truthy.
\<close>

fun truthy :: "string option \<Rightarrow> bool" where
  "truthy None = False"
| "truthy (Some s) = (s \<noteq> [])"

text \<open>
  \<^verbatim>\<open>const IS_DEV = process.env.IS_DEV\<close> is read once from the environment when the
  module is loaded; it is a parameter of the model. \<^verbatim>\<open>t\<close> is the injected
  translation function.
\<close>

definition getSettingsTabs :: "string option \<Rightarrow> (string \<Rightarrow> string) \<Rightarrow> SettingsTab list" where
  "getSettingsTabs IS_DEV t =
    [ \<lparr> id' = ''api-config'',
        name = t ''settings.tabs.api_configuration'',
        tooltipText = t ''settings.tabs.api_configuration'',
        headerText = t ''settings.tabs.api_configuration'',
        icon = SlidersHorizontal, hidden = None \<rparr>,
      \<lparr> id' = ''features'',
        name = t ''settings.tabs.features'',
        tooltipText = t ''settings.tabs.features'',
        headerText = t ''settings.tabs.features'',
        icon = CheckCheck, hidden = None \<rparr>,
      \<lparr> id' = ''browser'',
        name = t ''settings.tabs.browser'',
        tooltipText = t ''settings.tabs.browser'',
        headerText = t ''settings.tabs.browser'',
        icon = SquareMousePointer, hidden = None \<rparr>,
      \<lparr> id' = ''terminal'',
        name = t ''settings.tabs.terminal'',
        tooltipText = t ''settings.tabs.terminal'',
        headerText = t ''settings.tabs.terminal'',
        icon = SquareTerminal, hidden = None \<rparr>,
      \<lparr> id' = ''debug'',
        name = t ''settings.tabs.debug'',
        tooltipText = t ''settings.tabs.debug'',
        headerText = t ''settings.tabs.debug'',
        icon = FlaskConical, hidden = Some (\<not> truthy IS_DEV) \<rparr>,
      \<lparr> id' = ''general'',
        name = t ''settings.tabs.general'',
        tooltipText = t ''settings.tabs.general'',
        headerText = t ''settings.tabs.general'',
        icon = Wrench, hidden = None \<rparr>,
      \<lparr> id' = ''about'',
        name = t ''settings.tabs.about'',
        tooltipText = t ''settings.tabs.about'',
        headerText = t ''settings.tabs.about'',
        icon = Info, hidden = None \<rparr> ]"

text \<open>
  The tab list that is rendered: \<^verbatim>\<open>SETTINGS_TABS.filter((tab) => !tab.hidden)\<close>.
  An absent \<^verbatim>\<open>hidden\<close> is \<^verbatim>\<open>undefined\<close>, which is falsy.
\<close>

definition renderedTabs :: "SettingsTab list \<Rightarrow> SettingsTab list" where
  "renderedTabs SETTINGS_TABS = filter (\<lambda>tab. \<not> (hidden tab = Some True)) SETTINGS_TABS"

section \<open>The content map and its lookup\<close>

datatype Section =
  ApiConfigurationSection | GeneralSettingsSection | FeatureSettingsSection
  | BrowserSettingsSection | TerminalSettingsSection | AboutSection | DebugSection

text \<open>The object literal \<^verbatim>\<open>TAB_CONTENT_MAP\<close>, its own properties in source order.\<close>

definition TAB_CONTENT_MAP :: "(string \<times> Section) list" where
  "TAB_CONTENT_MAP =
    [ (''api-config'', ApiConfigurationSection),
      (''general'', GeneralSettingsSection),
      (''features'', FeatureSettingsSection),
      (''browser'', BrowserSettingsSection),
      (''terminal'', TerminalSettingsSection),
      (''about'', AboutSection),
      (''debug'', DebugSection) ]"

text \<open>
  \<^verbatim>\<open>TAB_CONTENT_MAP[activeTab as keyof typeof TAB_CONTENT_MAP]\<close> is an ordinary
  JavaScript property read: the cast exists at compile time only, and a read with a
  string key first looks at the object's own properties and then walks the prototype
  chain. An object literal has the prototype \<^verbatim>\<open>Object.prototype\<close>, whose properties
  are listed here (the standard ones and the legacy accessors every browser engine
  ships). All of them hold functions, or for \<^verbatim>\<open>__proto__\<close> the prototype object
  itself, so all of them are truthy.
\<close>

definition Object_prototype :: "string list" where
  "Object_prototype =
    [ ''constructor'', ''hasOwnProperty'', ''isPrototypeOf'', ''propertyIsEnumerable'',
      ''toLocaleString'', ''toString'', ''valueOf'', ''__proto__'',
      ''__defineGetter__'', ''__defineSetter__'', ''__lookupGetter__'',
      ''__lookupSetter__'' ]"

datatype JSValue =
  Undefined
  | SectionComponent Section
  | ObjectPrototypeMember string

definition getProperty :: "(string \<times> Section) list \<Rightarrow> string \<Rightarrow> JSValue" where
  "getProperty obj k =
    (case map_of obj k of
       Some c \<Rightarrow> SectionComponent c
     | None \<Rightarrow> if k \<in> set Object_prototype then ObjectPrototypeMember k else Undefined)"

fun truthyValue :: "JSValue \<Rightarrow> bool" where
  "truthyValue Undefined = False"
| "truthyValue (SectionComponent c) = True"
| "truthyValue (ObjectPrototypeMember k) = True"

section \<open>The tab router\<close>

text \<open>The two pieces of React state of \<^verbatim>\<open>SettingsView\<close>.\<close>

record RouterState =
  activeTab :: string
  isCompactMode :: bool

text \<open>
  \<^verbatim>\<open>initialTab = targetSection || SETTINGS_TABS[0].id\<close>; the registry is never empty,
  the empty list is written out only to keep the function total.
  \<^verbatim>\<open>isCompactMode\<close> starts as \<^verbatim>\<open>true\<close>.
\<close>

definition firstTabId :: "SettingsTab list \<Rightarrow> string" where
  "firstTabId SETTINGS_TABS = (case SETTINGS_TABS of [] \<Rightarrow> [] | tab # _ \<Rightarrow> id' tab)"

definition initialTab :: "string option \<Rightarrow> SettingsTab list \<Rightarrow> string" where
  "initialTab targetSection SETTINGS_TABS =
    (case targetSection of
       Some s \<Rightarrow> if s \<noteq> [] then s else firstTabId SETTINGS_TABS
     | None \<Rightarrow> firstTabId SETTINGS_TABS)"

definition initialState :: "string option \<Rightarrow> SettingsTab list \<Rightarrow> RouterState" where
  "initialState targetSection SETTINGS_TABS =
    \<lparr> activeTab = initialTab targetSection SETTINGS_TABS, isCompactMode = True \<rparr>"

text \<open>\<^verbatim>\<open>handleTabChange\<close>: \<^verbatim>\<open>setActiveTab(tabId)\<close>, with no check at all.\<close>

definition handleTabChange :: "RouterState \<Rightarrow> string \<Rightarrow> RouterState" where
  "handleTabChange s tabId = s\<lparr>activeTab := tabId\<rparr>"

text \<open>
  The effect on \<^verbatim>\<open>targetSection\<close>: \<^verbatim>\<open>if (targetSection) setActiveTab(targetSection)\<close>.
\<close>

definition targetSectionEffect :: "RouterState \<Rightarrow> string option \<Rightarrow> RouterState" where
  "targetSectionEffect s targetSection =
    (case targetSection of
       Some tabId \<Rightarrow> if tabId \<noteq> [] then s\<lparr>activeTab := tabId\<rparr> else s
     | None \<Rightarrow> s)"

text \<open>
  \<^verbatim>\<open>ActiveContent\<close>: the element \<^verbatim>\<open><Component {...props} />\<close>, or \<^verbatim>\<open>null\<close> (\<open>None\<close>)
  when the looked-up value is falsy. The props always hold \<^verbatim>\<open>renderSectionHeader\<close>;
  the debug tab also gets \<^verbatim>\<open>onResetState\<close>, the about tab \<^verbatim>\<open>version\<close>.
\<close>

datatype Prop = RenderSectionHeader | OnResetState | Version string

datatype Element = Element JSValue "Prop list"

definition ActiveContent :: "string \<Rightarrow> RouterState \<Rightarrow> Element option" where
  "ActiveContent version s =
    (let Component = getProperty TAB_CONTENT_MAP (activeTab s) in
     if \<not> truthyValue Component then None
     else Some (Element Component
       (RenderSectionHeader #
         (if activeTab s = ''debug'' then [OnResetState]
          else if activeTab s = ''about'' then [Version version]
          else []))))"

section \<open>Inbound messages\<close>

text \<open>
  What \<^verbatim>\<open>handleMessage\<close> reads of an \<^verbatim>\<open>ExtensionMessage\<close>: its \<^verbatim>\<open>type\<close>, the
  optional \<^verbatim>\<open>grpc_response\<close>, its optional \<^verbatim>\<open>message\<close>, and of that the \<^verbatim>\<open>key\<close> and
  the \<^verbatim>\<open>value\<close> (a string, or absent).
\<close>

record GrpcMessage =
  key :: "string option"
  value' :: "string option"

record GrpcResponse =
  message :: "GrpcMessage option"

record ExtensionMessage =
  type' :: string
  grpc_response :: "GrpcResponse option"

text \<open>
  The page around the router. \<^verbatim>\<open>document\<close> maps an element id to the inline style of
  the element with that id (the two style properties the handler writes);
  \<^verbatim>\<open>scrolledIntoView\<close> is the element the viewport was last scrolled to;
  \<^verbatim>\<open>animationFrames\<close> are the callbacks given to \<^verbatim>\<open>requestAnimationFrame\<close> that have
  not run yet (each is the closure over its \<^verbatim>\<open>tabId\<close>); \<^verbatim>\<open>timeouts\<close> are the pending
  \<^verbatim>\<open>setTimeout\<close> callbacks, with their delay in milliseconds and the element they hold.
\<close>

record Style =
  transition :: string
  backgroundColor :: string

record World =
  router :: RouterState
  document :: "string \<rightharpoonup> Style"
  scrolledIntoView :: "string option"
  animationFrames :: "string list"
  timeouts :: "(nat \<times> string) list"

text \<open>\<^verbatim>\<open>message.grpc_response?.message\<close>\<close>

definition grpcMessageOf :: "ExtensionMessage \<Rightarrow> GrpcMessage option" where
  "grpcMessageOf m = (case grpc_response m of None \<Rightarrow> None | Some r \<Rightarrow> message r)"

text \<open>\<^verbatim>\<open>grpcMessage?.key\<close>\<close>

definition keyOf :: "GrpcMessage option \<Rightarrow> string option" where
  "keyOf g = (case g of None \<Rightarrow> None | Some gm \<Rightarrow> key gm)"

text \<open>
  \<^verbatim>\<open>handleMessage\<close>, with its early returns in the order of the source. The last
  branch only hands a callback to \<^verbatim>\<open>requestAnimationFrame\<close>.
\<close>

definition handleMessage :: "SettingsTab list \<Rightarrow> World \<Rightarrow> ExtensionMessage \<Rightarrow> World" where
  "handleMessage SETTINGS_TABS w m =
    (if type' m \<noteq> ''grpc_response'' then w
     else let grpcMessage = grpcMessageOf m in
       if keyOf grpcMessage \<noteq> Some ''scrollToSettings'' then w
       else case grpcMessage of
         None \<Rightarrow> w
       | Some gm \<Rightarrow>
          (case value' gm of
             None \<Rightarrow> w
           | Some tabId \<Rightarrow>
               if tabId = [] then w
               else if list_ex (\<lambda>tab. id' tab = tabId) SETTINGS_TABS
                 then w\<lparr>router := (router w)\<lparr>activeTab := tabId\<rparr>\<rparr>
               else w\<lparr>animationFrames := animationFrames w @ [tabId]\<rparr>))"

text \<open>
  The callback given to \<^verbatim>\<open>requestAnimationFrame\<close>: nothing when
  \<^verbatim>\<open>document.getElementById(tabId)\<close> is \<^verbatim>\<open>null\<close>; otherwise scroll, highlight, and set
  the timer that removes the highlight after 1200 ms.
\<close>

definition frameCallback :: "World \<Rightarrow> string \<Rightarrow> World" where
  "frameCallback w tabId =
    (case document w tabId of
       None \<Rightarrow> w
     | Some st \<Rightarrow>
         w\<lparr> scrolledIntoView := Some tabId,
            document := (document w)(tabId \<mapsto>
              st\<lparr> transition := ''background-color 0.5s ease'',
                  backgroundColor := ''var(--vscode-textPreformat-background)'' \<rparr>),
            timeouts := timeouts w @ [(1200, tabId)] \<rparr>)"

text \<open>The timer's callback: \<^verbatim>\<open>element.style.backgroundColor = "transparent"\<close>.\<close>

definition timeoutCallback :: "World \<Rightarrow> nat \<times> string \<Rightarrow> World" where
  "timeoutCallback w tm =
    (case document w (snd tm) of
       None \<Rightarrow> w
     | Some st \<Rightarrow> w\<lparr> document := (document w)(snd tm \<mapsto> st\<lparr>backgroundColor := ''transparent''\<rparr>) \<rparr>)"

text \<open>
  The browser runs the pending animation-frame callbacks in the order they were
  requested, and later the pending timers in the order they were set (they all have
  the same delay).
\<close>

definition runAnimationFrames :: "World \<Rightarrow> World" where
  "runAnimationFrames w = foldl frameCallback (w\<lparr>animationFrames := []\<rparr>) (animationFrames w)"

definition runTimeouts :: "World \<Rightarrow> World" where
  "runTimeouts w = foldl timeoutCallback (w\<lparr>timeouts := []\<rparr>) (timeouts w)"


text \<open>The inbound navigate message \<^verbatim>\<open>{ kind: "navigate", target }\<close> of the interface.\<close>

definition navigate :: "string \<Rightarrow> ExtensionMessage" where
  "navigate target =
    \<lparr> type' = ''grpc_response'',
      grpc_response = Some \<lparr> message = Some \<lparr> key = Some ''scrollToSettings'', value' = Some target \<rparr> \<rparr> \<rparr>"

section \<open>Compact mode\<close>

text \<open>
  The router state together with the debounced call that is waiting, if any: the width
  it was called with (\<^verbatim>\<open>entry.contentRect.width\<close>, a number) and the time left, in
  milliseconds.
\<close>

record Observed =
  state :: RouterState
  pending :: "(real \<times> nat) option"

text \<open>
  Modelled from the spec: the \<^verbatim>\<open>debounce\<close> package is imported, its code is not
  part of the sources. The spec says that width changes are "debounced (100 ms) before
  updating compact, to avoid redundant re-renders during continuous resize": a call
  of \<^verbatim>\<open>checkCompactMode = debounce((width) => setIsCompactMode(width < 500), 100)\<close>
  replaces the waiting call and restarts the wait of 100 ms.
\<close>

definition checkCompactMode :: "Observed \<Rightarrow> real \<Rightarrow> Observed" where
  "checkCompactMode ob width = ob\<lparr>pending := Some (width, 100)\<rparr>"

text \<open>
  The \<^verbatim>\<open>ResizeObserver\<close> callback: \<^verbatim>\<open>entries[0]\<close>, when there is one, gives the
  width (\<^verbatim>\<open>entry.contentRect.width\<close>).
\<close>

definition resizeObserved :: "Observed \<Rightarrow> real list \<Rightarrow> Observed" where
  "resizeObserved ob entries =
    (case entries of [] \<Rightarrow> ob | width # _ \<Rightarrow> checkCompactMode ob width)"

text \<open>
  Modelled from the spec: the other half of \<^verbatim>\<open>debounce\<close>. \<open>ms\<close> milliseconds pass
  with no call of the debounced function; when the wait is over the function of the
  source runs once, with the width of the last call: \<^verbatim>\<open>setIsCompactMode(width < 500)\<close>.
\<close>

definition elapse :: "Observed \<Rightarrow> nat \<Rightarrow> Observed" where
  "elapse ob ms =
    (case pending ob of
       None \<Rightarrow> ob
     | Some (width, left) \<Rightarrow>
         if left \<le> ms
         then \<lparr> state = (state ob)\<lparr>isCompactMode := (width < 500)\<rparr>, pending = None \<rparr>
         else ob\<lparr>pending := Some (width, left - ms)\<rparr>)"

section \<open>Outbound remote calls\<close>

text \<open>
  The remote clients are outside the sources; what a call does is a parameter: the
  promise resolves, or it rejects with an error. The console is the list of the
  \<^verbatim>\<open>console.error\<close> calls made so far, each with its message and the error.
\<close>

datatype Outcome = Resolved | Rejected string

type_synonym Console = "(string \<times> string) list"

text \<open>The React state of the welcome view.\<close>

record WelcomeState =
  apiErrorMessage :: "string option"
  showApiOptions :: bool

text \<open>
  \<^verbatim>\<open>handleLogin\<close>: \<^verbatim>\<open>accountLoginClicked(...).catch((err) => console.error(...))\<close>.
\<close>

definition handleLogin :: "Outcome \<Rightarrow> WelcomeState \<times> Console \<Rightarrow> WelcomeState \<times> Console" where
  "handleLogin accountLoginClicked ui =
    (case accountLoginClicked of
       Resolved \<Rightarrow> ui
     | Rejected err \<Rightarrow> (fst ui, snd ui @ [(''Failed to get login URL:'', err)]))"

text \<open>\<^verbatim>\<open>handleSubmit\<close>: \<^verbatim>\<open>try { await setWelcomeViewCompleted(...) } catch (error) {...}\<close>.\<close>

definition handleSubmit :: "Outcome \<Rightarrow> WelcomeState \<times> Console \<Rightarrow> WelcomeState \<times> Console" where
  "handleSubmit setWelcomeViewCompleted ui =
    (case setWelcomeViewCompleted of
       Resolved \<Rightarrow> ui
     | Rejected error \<Rightarrow>
         (fst ui, snd ui @ [(''Failed to update API configuration or complete welcome view:'', error)]))"

text \<open>\<^verbatim>\<open>handleResetState\<close> of the settings view, the same shape.\<close>

definition handleResetState :: "Outcome \<Rightarrow> RouterState \<times> Console \<Rightarrow> RouterState \<times> Console" where
  "handleResetState resetState ui =
    (case resetState of
       Resolved \<Rightarrow> ui
     | Rejected error \<Rightarrow> (fst ui, snd ui @ [(''Failed to reset state:'', error)]))"

section \<open>The documentation command\<close>

text \<open>
  \<^verbatim>\<open>generateDocsWithCline\<close> reads three strings of the selection, builds the prompt
  with a template literal and calls \<^verbatim>\<open>controller.initTask(prompt)\<close>. The controller is
  outside the sources; the model records the calls of \<^verbatim>\<open>initTask\<close> it receives.
\<close>

record Selection =
  fileMention :: string
  language :: string
  content :: string

record CommandContext =
  selection :: Selection

record Controller =
  initTask :: "string list"

definition newline :: char where
  "newline = CHR 0x0A"

definition backticks :: string where
  "backticks = [CHR 0x60, CHR 0x60, CHR 0x60]"

definition prompt :: "Selection \<Rightarrow> string" where
  "prompt sel =
    ''Generate documentation for the following code from '' @ fileMention sel
      @ '' in Vietnamese:'' @ [newline, newline]
      @ backticks @ language sel @ [newline]
      @ content sel @ [newline] @ backticks"

definition generateDocsWithCline :: "Controller \<Rightarrow> CommandContext \<Rightarrow> Controller" where
  "generateDocsWithCline controller context =
    controller\<lparr>initTask := initTask controller @ [prompt (selection context)]\<rparr>"

section \<open>Auxiliary definitions for the statements\<close>

text \<open>A translation function with no translations: every label is its raw key.\<close>

definition rawKey :: "string \<Rightarrow> string" where
  "rawKey k = k"

text \<open>The component of a rendered element.\<close>

fun componentOf :: "Element \<Rightarrow> JSValue" where
  "componentOf (Element c props) = c"

text \<open>
  Handling a message and letting the next animation frame run; and the same followed by
  the timers.
\<close>

definition processMessage :: "SettingsTab list \<Rightarrow> World \<Rightarrow> ExtensionMessage \<Rightarrow> World" where
  "processMessage SETTINGS_TABS w m = runAnimationFrames (handleMessage SETTINGS_TABS w m)"


text \<open>A page with one anchor besides the settings view, and nothing pending.\<close>

definition examplePage :: World where
  "examplePage =
    \<lparr> router = initialState None (getSettingsTabs None rawKey),
      document = [''mcp-servers'' \<mapsto> \<lparr> transition = [], backgroundColor = [] \<rparr>],
      scrolledIntoView = None,
      animationFrames = [],
      timeouts = [] \<rparr>"

section \<open>Helper lemmas\<close>

lemma registry_ids:
  "map id' (getSettingsTabs IS_DEV t) =
    [''api-config'', ''features'', ''browser'', ''terminal'', ''debug'', ''general'', ''about'']"
  by (simp add: getSettingsTabs_def)

lemma registry_member:
  "list_ex (\<lambda>tab. id' tab = tabId) (getSettingsTabs IS_DEV t)
    = (tabId \<in> set (map id' (getSettingsTabs IS_DEV t)))"
  by (auto simp: list_ex_iff)

lemma handleMessage_navigate:
  "handleMessage SETTINGS_TABS w (navigate target) =
    (if target = [] then w
     else if target \<in> set (map id' SETTINGS_TABS)
       then w\<lparr>router := (router w)\<lparr>activeTab := target\<rparr>\<rparr>
     else w\<lparr>animationFrames := animationFrames w @ [target]\<rparr>)"
  by (auto simp: handleMessage_def navigate_def grpcMessageOf_def keyOf_def list_ex_iff)

section \<open>Claims about the router\<close>

text \<open>
  C1. For every section id of the registry (\<^verbatim>\<open>getSettingsTabs\<close>), after
  \<^verbatim>\<open>handleTabChange(id)\<close> the lookup of \<^verbatim>\<open>ActiveContent\<close> renders exactly the
  component that \<^verbatim>\<open>TAB_CONTENT_MAP\<close> holds under that id.
\<close>

theorem setActive_resolveActive:
  assumes "tabId \<in> set (map id' (getSettingsTabs IS_DEV t))"
  shows "\<exists>c. map_of TAB_CONTENT_MAP tabId = Some c
    \<and> map_option componentOf (ActiveContent version (handleTabChange s tabId))
        = Some (SectionComponent c)"
proof -
  from assms have "tabId \<in> {''api-config'', ''features'', ''browser'', ''terminal'', ''debug'', ''general'', ''about''}"
    by (simp add: registry_ids)
  then show ?thesis
    by (auto simp: TAB_CONTENT_MAP_def ActiveContent_def handleTabChange_def getProperty_def)
qed

theorem setActive_resolveActive_witness:
  "''about'' \<in> set (map id' (getSettingsTabs None rawKey))
   \<and> map_option componentOf
       (ActiveContent ''3.0'' (handleTabChange (initialState None (getSettingsTabs None rawKey)) ''about''))
     = Some (SectionComponent AboutSection)"
proof -
  have h: "''about'' \<in> set (map id' (getSettingsTabs None rawKey))"
    by (simp add: getSettingsTabs_def)
  from setActive_resolveActive [OF h, of "''3.0''" "initialState None (getSettingsTabs None rawKey)"]
  have "map_option componentOf
       (ActiveContent ''3.0'' (handleTabChange (initialState None (getSettingsTabs None rawKey)) ''about''))
     = Some (SectionComponent AboutSection)"
    by (simp add: TAB_CONTENT_MAP_def)
  with h show ?thesis by simp
qed

text \<open>
  C2. A navigate message whose target is a section id of the registry makes
  \<^verbatim>\<open>handleMessage\<close> set \<^verbatim>\<open>activeTab\<close> to that target, and changes nothing else.
\<close>

theorem navigate_known_sets_activeTab:
  assumes "target \<in> set (map id' (getSettingsTabs IS_DEV t))"
  shows "handleMessage (getSettingsTabs IS_DEV t) w (navigate target)
      = w\<lparr>router := (router w)\<lparr>activeTab := target\<rparr>\<rparr>
    \<and> activeTab (router (handleMessage (getSettingsTabs IS_DEV t) w (navigate target))) = target"
proof -
  from assms have "target \<noteq> []"
    by (auto simp: registry_ids)
  with assms show ?thesis
    by (simp add: handleMessage_navigate)
qed

theorem navigate_known_sets_activeTab_witness:
  "''terminal'' \<in> set (map id' (getSettingsTabs None rawKey))
   \<and> activeTab (router (handleMessage (getSettingsTabs None rawKey) examplePage (navigate ''terminal'')))
      = ''terminal''"
proof -
  have h: "''terminal'' \<in> set (map id' (getSettingsTabs None rawKey))"
    by (simp add: getSettingsTabs_def)
  from navigate_known_sets_activeTab [OF h, of examplePage] h show ?thesis
    by simp
qed

text \<open>
  The animation-frame callback never adds or removes an element: it only restyles one
  that exists.
\<close>

lemma frameCallback_document_None:
  "document (frameCallback w x) k = None \<longleftrightarrow> document w k = None"
  by (simp add: frameCallback_def split: option.splits)

lemma foldl_frameCallback_document_None:
  "document (foldl frameCallback w xs) k = None \<longleftrightarrow> document w k = None"
  by (induction xs arbitrary: w) (simp_all add: frameCallback_document_None)

lemma frameCallback_absent:
  "document w k = None \<Longrightarrow> frameCallback w k = w"
  by (simp add: frameCallback_def)

text \<open>
  C3. A navigate message whose target is no section id of the registry and no id of an
  element of the page leaves the router state (\<^verbatim>\<open>activeTab\<close>, \<^verbatim>\<open>isCompactMode\<close>) as
  it was; nor does the callback it hands to the next animation frame change anything:
  the page ends up exactly as it would have without the message.
\<close>

theorem navigate_unknown_noop:
  assumes "target \<notin> set (map id' (getSettingsTabs IS_DEV t))"
    and "document w target = None"
  shows "router (handleMessage (getSettingsTabs IS_DEV t) w (navigate target)) = router w
    \<and> processMessage (getSettingsTabs IS_DEV t) w (navigate target) = runAnimationFrames w"
proof (cases "target = []")
  case True
  then show ?thesis
    by (simp add: handleMessage_navigate processMessage_def)
next
  case False
  let ?w0 = "foldl frameCallback (w\<lparr>animationFrames := []\<rparr>) (animationFrames w)"
  from assms(2) have "document ?w0 target = None"
    by (simp add: foldl_frameCallback_document_None)
  then have "frameCallback ?w0 target = ?w0"
    by (rule frameCallback_absent)
  with False assms(1) show ?thesis
    by (simp add: handleMessage_navigate processMessage_def runAnimationFrames_def)
qed

theorem navigate_unknown_noop_witness:
  "''no-such-anchor'' \<notin> set (map id' (getSettingsTabs None rawKey))
   \<and> document examplePage ''no-such-anchor'' = None
   \<and> router (handleMessage (getSettingsTabs None rawKey) examplePage (navigate ''no-such-anchor''))
       = router examplePage
   \<and> processMessage (getSettingsTabs None rawKey) examplePage (navigate ''no-such-anchor'')
       = examplePage"
proof -
  have h1: "''no-such-anchor'' \<notin> set (map id' (getSettingsTabs None rawKey))"
    by (simp add: getSettingsTabs_def)
  have h2: "document examplePage ''no-such-anchor'' = None"
    by (simp add: examplePage_def)
  have h3: "runAnimationFrames examplePage = examplePage"
    by (simp add: runAnimationFrames_def examplePage_def)
  from navigate_unknown_noop [OF h1 h2] h1 h2 h3 show ?thesis
    by simp
qed

text \<open>
  The check of \<^verbatim>\<open>ActiveContent\<close> holds for every key that is neither an own property of
  the content map nor a property of \<^verbatim>\<open>Object.prototype\<close>.
\<close>

lemma unknown_key_renders_nothing:
  "map_of TAB_CONTENT_MAP tabId = None \<Longrightarrow> tabId \<notin> set Object_prototype \<Longrightarrow>
    ActiveContent version (handleTabChange s tabId) = None"
  by (simp add: ActiveContent_def handleTabChange_def getProperty_def)

text \<open>
  C4. \<^verbatim>\<open>handleTabChange\<close> stores any id without looking at the registry, and for an id
  that is no section id \<^verbatim>\<open>ActiveContent\<close> is meant to be \<^verbatim>\<open>null\<close>. Evaluated at the id
  \<^verbatim>\<open>"constructor"\<close>, which is no section id: the id is stored, the property read finds
  \<^verbatim>\<open>Object.prototype.constructor\<close>, the guard \<^verbatim>\<open>if (!Component)\<close> does not fire, and an
  element is returned in place of \<^verbatim>\<open>null\<close>. The same happens when the id arrives as
  \<^verbatim>\<open>targetSection\<close>.
\<close>

theorem inherited_key_renders:
  "''constructor'' \<notin> set (map id' (getSettingsTabs None rawKey))
   \<and> activeTab (handleTabChange (initialState None (getSettingsTabs None rawKey)) ''constructor'')
       = ''constructor''
   \<and> ActiveContent ''3.0''
       (handleTabChange (initialState None (getSettingsTabs None rawKey)) ''constructor'')
     = Some (Element (ObjectPrototypeMember ''constructor'') [RenderSectionHeader])
   \<and> ActiveContent ''3.0''
       (targetSectionEffect (initialState None (getSettingsTabs None rawKey)) (Some ''constructor''))
     \<noteq> None"
  by (simp add: getSettingsTabs_def handleTabChange_def targetSectionEffect_def ActiveContent_def
      getProperty_def TAB_CONTENT_MAP_def Object_prototype_def)

section \<open>Claims about compact mode\<close>

text \<open>
  C5. Once the 100 ms of the debounce have passed after an observation, \<^verbatim>\<open>isCompactMode\<close>
  is \<^verbatim>\<open>true\<close> when the observed width is below the threshold of 500 and \<^verbatim>\<open>false\<close>
  when it is above it (and also when it is exactly 500); 480 gives \<^verbatim>\<open>true\<close>, 600 gives
  \<^verbatim>\<open>false\<close>.
\<close>

theorem compact_after_debounce:
  "isCompactMode (state (elapse (resizeObserved ob (width # entries)) (100 + later)))
    = (width < 500)"
  by (simp add: elapse_def resizeObserved_def checkCompactMode_def)

theorem compact_after_debounce_witness:
  "isCompactMode (state (elapse (resizeObserved
      \<lparr> state = \<lparr> activeTab = ''api-config'', isCompactMode = False \<rparr>, pending = None \<rparr> [480]) 100))
   \<and> \<not> isCompactMode (state (elapse (resizeObserved
      \<lparr> state = \<lparr> activeTab = ''api-config'', isCompactMode = True \<rparr>, pending = None \<rparr> [600]) 100))"
  using compact_after_debounce [of "\<lparr> state = \<lparr> activeTab = ''api-config'', isCompactMode = False \<rparr>, pending = None \<rparr>" 480 "[]" 0]
    compact_after_debounce [of "\<lparr> state = \<lparr> activeTab = ''api-config'', isCompactMode = True \<rparr>, pending = None \<rparr>" 600 "[]" 0]
  by simp

text \<open>
  Before the 100 ms are over nothing changes, and an observation that arrives in that
  time replaces the waiting one: the width of the last call decides.
\<close>

lemma debounce_waits:
  "ms < 100 \<Longrightarrow> state (elapse (resizeObserved ob (width # entries)) ms) = state ob"
  by (simp add: elapse_def resizeObserved_def checkCompactMode_def)

lemma debounce_last_call_wins:
  "ms < 100 \<Longrightarrow>
    isCompactMode (state (elapse (resizeObserved (elapse (resizeObserved ob [width1]) ms) [width2]) 100))
      = (width2 < 500)"
  by (simp add: elapse_def resizeObserved_def checkCompactMode_def)

section \<open>Idempotence of the message handler\<close>


lemma frameCallback_fields [simp]:
  "router (frameCallback w x) = router w"
  "animationFrames (frameCallback w x) = animationFrames w"
  by (simp_all add: frameCallback_def split: option.splits)

lemma timeoutCallback_fields [simp]:
  "router (timeoutCallback w tm) = router w"
  "animationFrames (timeoutCallback w tm) = animationFrames w"
  "timeouts (timeoutCallback w tm) = timeouts w"
  "scrolledIntoView (timeoutCallback w tm) = scrolledIntoView w"
  by (simp_all add: timeoutCallback_def split: option.splits)

lemma foldl_frameCallback_fields [simp]:
  "router (foldl frameCallback w xs) = router w"
  "animationFrames (foldl frameCallback w xs) = animationFrames w"
  by (induction xs arbitrary: w) simp_all

lemma foldl_timeoutCallback_fields [simp]:
  "router (foldl timeoutCallback w xs) = router w"
  "animationFrames (foldl timeoutCallback w xs) = animationFrames w"
  "timeouts (foldl timeoutCallback w xs) = timeouts w"
  "scrolledIntoView (foldl timeoutCallback w xs) = scrolledIntoView w"
  by (induction xs arbitrary: w) simp_all














lemma runAnimationFrames_fields [simp]:
  "animationFrames (runAnimationFrames w) = []"
  "router (runAnimationFrames w) = router w"
  by (simp_all add: runAnimationFrames_def)

lemma runTimeouts_fields [simp]:
  "timeouts (runTimeouts w) = []"
  "animationFrames (runTimeouts w) = animationFrames w"
  "router (runTimeouts w) = router w"
  "scrolledIntoView (runTimeouts w) = scrolledIntoView w"
  by (simp_all add: runTimeouts_def)

















section \<open>Claims about the registry\<close>

text \<open>
  C7, as stated: the output of \<^verbatim>\<open>getSettingsTabs\<close> depends on nothing but the
  translation function. It does not hold: with the same translation function the
  registry differs between an environment without \<^verbatim>\<open>IS_DEV\<close> and one with it.
\<close>

theorem getSettingsTabs_depends_on_IS_DEV:
  "getSettingsTabs None rawKey \<noteq> getSettingsTabs (Some ''true'') rawKey"
  by (simp add: getSettingsTabs_def)

text \<open>
  C7, amended. \<^verbatim>\<open>getSettingsTabs\<close> is a function of the translation function and of
  the module constant \<^verbatim>\<open>IS_DEV\<close>. The ids and their order are fixed; the \<^verbatim>\<open>hidden\<close>
  flag is absent on every tab but the debug tab, where it is \<^verbatim>\<open>!IS_DEV\<close>. So for one
  translation function two environments give the same registry exactly when
  \<^verbatim>\<open>IS_DEV\<close> is truthy in both or falsy in both, and they never differ in anything but
  that flag.
\<close>

theorem getSettingsTabs_inputs:
  "map (\<lambda>tab. (id' tab, hidden tab)) (getSettingsTabs IS_DEV t)
     = [ (''api-config'', None), (''features'', None), (''browser'', None), (''terminal'', None),
         (''debug'', Some (\<not> truthy IS_DEV)), (''general'', None), (''about'', None) ]
   \<and> (getSettingsTabs IS_DEV t = getSettingsTabs IS_DEV' t) = (truthy IS_DEV = truthy IS_DEV')
   \<and> map (\<lambda>tab. tab\<lparr>hidden := None\<rparr>) (getSettingsTabs IS_DEV t)
     = map (\<lambda>tab. tab\<lparr>hidden := None\<rparr>) (getSettingsTabs IS_DEV' t)"
  by (auto simp: getSettingsTabs_def)

text \<open>
  C9. A tab of the registry whose \<^verbatim>\<open>hidden\<close> flag is set (the debug tab when
  \<^verbatim>\<open>IS_DEV\<close> is falsy) is not in the rendered tab list, yet a navigate message with
  its id makes it the active tab, and \<^verbatim>\<open>ActiveContent\<close> renders its section.
\<close>

theorem hidden_tab_reachable:
  assumes "tab \<in> set (getSettingsTabs IS_DEV t)" and "hidden tab = Some True"
  shows "tab \<notin> set (renderedTabs (getSettingsTabs IS_DEV t))
    \<and> id' tab \<notin> set (map id' (renderedTabs (getSettingsTabs IS_DEV t)))
    \<and> router (handleMessage (getSettingsTabs IS_DEV t) w (navigate (id' tab)))
        = (router w)\<lparr>activeTab := id' tab\<rparr>
    \<and> ActiveContent version (router (handleMessage (getSettingsTabs IS_DEV t) w (navigate (id' tab))))
        = Some (Element (SectionComponent DebugSection) [RenderSectionHeader, OnResetState])"
proof -
  from assms have dbg: "id' tab = ''debug''" and off: "\<not> truthy IS_DEV"
    by (auto simp: getSettingsTabs_def)
  have "map id' (renderedTabs (getSettingsTabs IS_DEV t))
      = [''api-config'', ''features'', ''browser'', ''terminal'', ''general'', ''about'']"
    using off by (simp add: getSettingsTabs_def renderedTabs_def)
  then have 1: "id' tab \<notin> set (map id' (renderedTabs (getSettingsTabs IS_DEV t)))"
    using dbg by simp
  then have 2: "tab \<notin> set (renderedTabs (getSettingsTabs IS_DEV t))"
    by auto
  have 3: "handleMessage (getSettingsTabs IS_DEV t) w (navigate ''debug'')
      = w\<lparr>router := (router w)\<lparr>activeTab := ''debug''\<rparr>\<rparr>"
    by (simp add: handleMessage_navigate registry_ids)
  have 4: "ActiveContent version ((router w)\<lparr>activeTab := ''debug''\<rparr>)
      = Some (Element (SectionComponent DebugSection) [RenderSectionHeader, OnResetState])"
    by (simp add: ActiveContent_def getProperty_def TAB_CONTENT_MAP_def)
  from 1 2 3 4 dbg show ?thesis by simp
qed

theorem hidden_tab_reachable_witness:
  "(getSettingsTabs None rawKey) ! 4 \<in> set (getSettingsTabs None rawKey)
   \<and> hidden ((getSettingsTabs None rawKey) ! 4) = Some True
   \<and> ''debug'' \<notin> set (map id' (renderedTabs (getSettingsTabs None rawKey)))
   \<and> ActiveContent ''3.0''
       (router (handleMessage (getSettingsTabs None rawKey) examplePage (navigate ''debug'')))
     = Some (Element (SectionComponent DebugSection) [RenderSectionHeader, OnResetState])"
proof -
  have h1: "(getSettingsTabs None rawKey) ! 4 \<in> set (getSettingsTabs None rawKey)"
    by (simp add: getSettingsTabs_def)
  have h2: "hidden ((getSettingsTabs None rawKey) ! 4) = Some True"
    by (simp add: getSettingsTabs_def)
  have h3: "id' ((getSettingsTabs None rawKey) ! 4) = ''debug''"
    by (simp add: getSettingsTabs_def)
  note r = hidden_tab_reachable [OF h1 h2, of examplePage "''3.0''", unfolded h3]
  from r have c1: "''debug'' \<notin> set (map id' (renderedTabs (getSettingsTabs None rawKey)))"
    by (rule conjunct1 [OF conjunct2])
  from r have c2: "ActiveContent ''3.0''
       (router (handleMessage (getSettingsTabs None rawKey) examplePage (navigate ''debug'')))
     = Some (Element (SectionComponent DebugSection) [RenderSectionHeader, OnResetState])"
    by (rule conjunct2 [OF conjunct2 [OF conjunct2]])
  from h1 h2 c1 c2 show ?thesis
    by (intro conjI)
qed

section \<open>Claims about remote calls and the documentation command\<close>

text \<open>
  C8. When the remote call of \<^verbatim>\<open>handleLogin\<close>, \<^verbatim>\<open>handleSubmit\<close> or
  \<^verbatim>\<open>handleResetState\<close> rejects, one \<^verbatim>\<open>console.error\<close> entry with the error is
  written and the state of the view is exactly what it was.
\<close>

theorem rejected_call_logged:
  "handleLogin (Rejected err) (welcome, console)
      = (welcome, console @ [(''Failed to get login URL:'', err)])
   \<and> handleSubmit (Rejected err) (welcome, console)
      = (welcome, console @ [(''Failed to update API configuration or complete welcome view:'', err)])
   \<and> handleResetState (Rejected err) (s, console)
      = (s, console @ [(''Failed to reset state:'', err)])"
  by (simp add: handleLogin_def handleSubmit_def handleResetState_def)

text \<open>
  C10. \<^verbatim>\<open>generateDocsWithCline\<close> calls \<^verbatim>\<open>initTask\<close> exactly once, and the prompt it
  passes contains the selection's \<^verbatim>\<open>fileMention\<close>, \<^verbatim>\<open>language\<close> and \<^verbatim>\<open>content\<close>
  unchanged and asks for the documentation "in Vietnamese".
\<close>

theorem generateDocs_prompt:
  "initTask (generateDocsWithCline controller context)
      = initTask controller @ [prompt (selection context)]
   \<and> sublist (fileMention (selection context)) (prompt (selection context))
   \<and> sublist (language (selection context)) (prompt (selection context))
   \<and> sublist (content (selection context)) (prompt (selection context))
   \<and> sublist ''in Vietnamese'' (prompt (selection context))"
proof -
  let ?sel = "selection context"
  have 1: "prompt ?sel = ''Generate documentation for the following code from ''
      @ fileMention ?sel @ ('' in Vietnamese:'' @ [newline, newline] @ backticks @ language ?sel
        @ [newline] @ content ?sel @ [newline] @ backticks)"
    by (simp add: prompt_def)
  have 2: "prompt ?sel = (''Generate documentation for the following code from ''
      @ fileMention ?sel @ '' in Vietnamese:'' @ [newline, newline] @ backticks) @ language ?sel
        @ ([newline] @ content ?sel @ [newline] @ backticks)"
    by (simp add: prompt_def)
  have 3: "prompt ?sel = (''Generate documentation for the following code from ''
      @ fileMention ?sel @ '' in Vietnamese:'' @ [newline, newline] @ backticks @ language ?sel
        @ [newline]) @ content ?sel @ ([newline] @ backticks)"
    by (simp add: prompt_def)
  have 4: "prompt ?sel = (''Generate documentation for the following code from ''
      @ fileMention ?sel @ '' '') @ ''in Vietnamese'' @ ('':'' @ [newline, newline] @ backticks
        @ language ?sel @ [newline] @ content ?sel @ [newline] @ backticks)"
    by (simp add: prompt_def)
  have "sublist (fileMention ?sel) (prompt ?sel)"
    unfolding 1 by (rule sublist_appendI)
  moreover have "sublist (language ?sel) (prompt ?sel)"
    unfolding 2 by (rule sublist_appendI)
  moreover have "sublist (content ?sel) (prompt ?sel)"
    unfolding 3 by (rule sublist_appendI)
  moreover have "sublist ''in Vietnamese'' (prompt ?sel)"
    unfolding 4 by (rule sublist_appendI)
  ultimately show ?thesis
    by (simp add: generateDocsWithCline_def)
qed

end
